theory Spec2Isabelle
  imports Main "HOL-Library.AList" "HOL-Library.Char_ord" "HOL-Library.List_Lexorder"
begin

section \<open>Python values, dictionaries and exceptions\<close>

text \<open>
  Text is a list of characters; a \<^typ>\<open>char\<close> stands for one code point below 256.
  A dictionary is an association list in insertion order, as Python's \<open>dict\<close> iterates.
\<close>

record dag =
  dag_id :: string
  task_ids :: "string list"

text \<open>
  Modelled from the spec: \<open>TaskGroup\<close> (airflow.sdk.definitions.taskgroup) is not in src.
  The identifier scope is "recursively, within a named sub-grouping": \<open>child_id\<close> qualifies a
  label with the group's id and a dot when the group prefixes its children and has an id.
\<close>

record task_group =
  prefix_group_id :: bool
  group_id :: "string option"

datatype pyval =
    PNone
  | PBool bool
  | PInt int
  | PStr string
  | PList "pyval list"
  | PTuple "pyval list"
  | PDict "(string \<times> pyval) list"
  | PXComArg string
  | PDag dag
  | PTaskGroup task_group
  | PObj string

type_synonym pydict = "(string \<times> pyval) list"

text \<open>
  An exception is a value: the class that is raised and its message. \<open>Unmodelled\<close> is not
  an exception of the program: it marks an input on which the program's behaviour is not
  described here (a value of a type the code does not expect, a task id that is read as a
  regular expression with operators).
\<close>

datatype error =
    ValueError string
  | TypeError string
  | AttributeError string
  | KeyError string
  | Unmodelled string

definition child_id :: "task_group \<Rightarrow> string \<Rightarrow> string" where
  "child_id tg label =
     (if prefix_group_id tg then
        (case group_id tg of
           Some g \<Rightarrow> if g \<noteq> [] then g @ ''.'' @ label else label
         | None \<Rightarrow> label)
      else label)"

section \<open>Unique task identifiers\<close>

definition is_digit :: "char \<Rightarrow> bool" where
  "is_digit c = (c \<in> set ''0123456789'')"

definition digit_val :: "char \<Rightarrow> nat" where
  "digit_val c = of_char c - 48"

text \<open>\<open>int(s)\<close> for a string of decimal digits.\<close>

definition int_of_digits :: "string \<Rightarrow> nat" where
  "int_of_digits ds = foldl (\<lambda>n c. 10 * n + digit_val c) 0 ds"

text \<open>\<open>str(n)\<close> for a natural number.\<close>

fun str_nat :: "nat \<Rightarrow> string" where
  "str_nat n =
     (if n < 10 then [''0123456789'' ! n]
      else str_nat (n div 10) @ [''0123456789'' ! (n mod 10)])"

declare str_nat.simps [simp del]

text \<open>
  The regular expression \<open>__\d+$\<close> tried at the head of a string: two underscores, the
  longest run of digits (a shorter run is followed by a digit, where \<open>$\<close> fails), then the
  end of the string or a newline that ends it. The result is the run of digits.
\<close>

definition match_suffix :: "string \<Rightarrow> string option" where
  "match_suffix t =
     (case t of
        c1 # c2 # r \<Rightarrow>
          if c1 = CHR ''_'' \<and> c2 = CHR ''_'' then
            (let ds = takeWhile is_digit r; rest = dropWhile is_digit r
             in if ds \<noteq> [] \<and> (rest = [] \<or> rest = [CHR 0x0A]) then Some ds else None)
          else None
      | _ \<Rightarrow> None)"

text \<open>\<open>re.split(r"__\d+$", s)[0]\<close>: the text before the leftmost match, or all of \<open>s\<close>.\<close>

fun split_head :: "string \<Rightarrow> string" where
  "split_head [] = []"
| "split_head (c # cs) =
     (if match_suffix (c # cs) \<noteq> None then [] else c # split_head cs)"

text \<open>
  The pattern \<open>rf"^{prefix}__(\d+)$"\<close> interpolates the prefix as it is, so its
  characters are read as regular-expression syntax: a dot matches any character but a
  newline, and the operators \<open>\ ^ $ * + ? { } [ ] ( ) |\<close> are outside the fragment
  modelled here (\<open>compile_prefix\<close> gives \<open>None\<close>); every other character matches itself.
\<close>

datatype atom = Lit char | AnyChar

definition re_special :: "char \<Rightarrow> bool" where
  "re_special c = (c \<in> set [CHR 0x5C, CHR ''^'', CHR ''$'', CHR ''*'', CHR ''+'', CHR ''?'',
      CHR ''{'', CHR ''}'', CHR ''['', CHR '']'', CHR ''('', CHR '')'', CHR ''|''])"

definition compile_prefix :: "string \<Rightarrow> atom list option" where
  "compile_prefix p =
     (if list_ex re_special p then None
      else Some (map (\<lambda>c. if c = CHR ''.'' then AnyChar else Lit c) p))"

text \<open>A prefix of which every character stands for itself in the pattern.\<close>

definition plain :: "string \<Rightarrow> bool" where
  "plain s = (\<not> list_ex re_special s \<and> CHR ''.'' \<notin> set s)"

fun atom_matches :: "atom \<Rightarrow> char \<Rightarrow> bool" where
  "atom_matches (Lit d) c = (c = d)"
| "atom_matches AnyChar c = (c \<noteq> CHR 0x0A)"

fun match_atoms :: "atom list \<Rightarrow> string \<Rightarrow> string option" where
  "match_atoms [] s = Some s"
| "match_atoms (a # as) [] = None"
| "match_atoms (a # as) (c # cs) = (if atom_matches a c then match_atoms as cs else None)"

text \<open>\<open>re.match(rf"^{prefix}__(\d+)$", task_id)\<close> with the prefix compiled: group 1.\<close>

definition re_match_id :: "atom list \<Rightarrow> string \<Rightarrow> string option" where
  "re_match_id pat task_id =
     (case match_atoms pat task_id of None \<Rightarrow> None | Some rest \<Rightarrow> match_suffix rest)"

text \<open>The generator \<open>_find_id_suffixes\<close>, in the order it yields.\<close>

definition find_id_suffixes :: "atom list \<Rightarrow> string list \<Rightarrow> nat list" where
  "find_id_suffixes pat ids =
     map int_of_digits (List.map_filter (re_match_id pat) ids) @ [0]"

text \<open>
  The ambient definition context: what \<open>DagContext.get_current()\<close> and
  \<open>TaskGroupContext.get_current(dag)\<close> give.
\<close>

record definition_context =
  current_dag :: "dag option"
  current_task_group :: "dag option \<Rightarrow> task_group option"

text \<open>\<open>a or b\<close> for operands that are \<open>None\<close> or an object (objects are true).\<close>

definition py_or :: "'a option \<Rightarrow> 'a option \<Rightarrow> 'a option" where
  "py_or a b = (case a of Some x \<Rightarrow> Some x | None \<Rightarrow> b)"

text \<open>The identifier the pipeline knows the task by: \<open>tg_task_id\<close>.\<close>

definition tg_task_id :: "task_group option \<Rightarrow> string \<Rightarrow> string" where
  "tg_task_id task_group task_id =
     (case task_group of Some g \<Rightarrow> child_id g task_id | None \<Rightarrow> task_id)"

text \<open>
  \<open>get_unique_task_id\<close>. The result is \<open>Inl (Unmodelled _)\<close> only when the prefix is
  outside the modelled fragment of regular expressions.
\<close>

definition get_unique_task_id ::
  "'a definition_context_scheme \<Rightarrow> string \<Rightarrow> dag option \<Rightarrow> task_group option \<Rightarrow> error + string" where
  "get_unique_task_id ctx task_id dag0 task_group0 =
     (case py_or dag0 (current_dag ctx) of
        None \<Rightarrow> Inr task_id
      | Some dag \<Rightarrow>
          (let task_group = py_or task_group0 (current_task_group ctx (Some dag));
               tg_id = tg_task_id task_group task_id
           in if tg_id \<notin> set (task_ids dag) then Inr task_id
              else
                (case compile_prefix (split_head tg_id) of
                   None \<Rightarrow> Inl (Unmodelled ''regular expression operators in the task id'')
                 | Some pat \<Rightarrow>
                     (let core = split_head task_id
                      in Inr (core @ ''__''
                           @ str_nat (Max (set (find_id_suffixes pat (task_ids dag))) + 1))))))"

section \<open>Rendering values in messages\<close>

definition hex_digit :: "nat \<Rightarrow> char" where
  "hex_digit n = ''0123456789abcdef'' ! (n mod 16)"

text \<open>\<open>str.isprintable\<close> for one code point below 256.\<close>

definition printable :: "char \<Rightarrow> bool" where
  "printable c = (let n = (of_char c :: nat) in (32 \<le> n \<and> n < 127) \<or> (161 \<le> n \<and> n \<noteq> 173))"

definition repr_char :: "char \<Rightarrow> char \<Rightarrow> string" where
  "repr_char q c =
     (if c = q \<or> c = CHR 0x5C then [CHR 0x5C, c]
      else if c = CHR 0x09 then [CHR 0x5C, CHR ''t'']
      else if c = CHR 0x0A then [CHR 0x5C, CHR ''n'']
      else if c = CHR 0x0D then [CHR 0x5C, CHR ''r'']
      else if printable c then [c]
      else [CHR 0x5C, CHR ''x'', hex_digit (of_char c div 16), hex_digit (of_char c mod 16)])"

text \<open>\<open>repr(s)\<close> of a string, which is what \<open>{s!r}\<close> formats.\<close>

definition py_repr :: "string \<Rightarrow> string" where
  "py_repr s =
     (let q = (if CHR 0x27 \<in> set s \<and> CHR 0x22 \<notin> set s then CHR 0x22 else CHR 0x27)
      in q # concat (map (repr_char q) s) @ [q])"

text \<open>\<open>sep.join(xs)\<close>.\<close>

fun join :: "string \<Rightarrow> string list \<Rightarrow> string" where
  "join sep [] = []"
| "join sep [x] = x"
| "join sep (x # y # ys) = x @ sep @ join sep (y # ys)"

text \<open>
  \<open>type(v).__name__\<close>. \<open>XComArg(...)\<close> builds a \<open>PlainXComArg\<close>; \<open>PObj c\<close> is an
  opaque object of a class named \<open>c\<close>.
\<close>

fun type_name :: "pyval \<Rightarrow> string" where
  "type_name PNone = ''NoneType''"
| "type_name (PBool _) = ''bool''"
| "type_name (PInt _) = ''int''"
| "type_name (PStr _) = ''str''"
| "type_name (PList _) = ''list''"
| "type_name (PTuple _) = ''tuple''"
| "type_name (PDict _) = ''dict''"
| "type_name (PXComArg _) = ''PlainXComArg''"
| "type_name (PDag _) = ''DAG''"
| "type_name (PTaskGroup _) = ''TaskGroup''"
| "type_name (PObj c) = c"

fun is_XComArg :: "pyval \<Rightarrow> bool" where
  "is_XComArg (PXComArg _) = True"
| "is_XComArg _ = False"

fun is_Mapping :: "pyval \<Rightarrow> bool" where
  "is_Mapping (PDict _) = True"
| "is_Mapping _ = False"

text \<open>\<open>isinstance(v, Sequence)\<close>: lists, tuples and strings.\<close>

fun is_Sequence :: "pyval \<Rightarrow> bool" where
  "is_Sequence (PList _) = True"
| "is_Sequence (PTuple _) = True"
| "is_Sequence (PStr _) = True"
| "is_Sequence _ = False"

text \<open>
  Modelled from the spec: \<open>is_mappable\<close> (airflow.sdk.definitions._internal.expandinput) is
  not in src. The sanctioned shapes are "a literal sequence/mapping or a deferred reference
  to another task's output"; a string is not a collection to expand over.
\<close>

fun is_mappable :: "pyval \<Rightarrow> bool" where
  "is_mappable (PXComArg _) = True"
| "is_mappable (PDict _) = True"
| "is_mappable (PList _) = True"
| "is_mappable (PTuple _) = True"
| "is_mappable _ = False"

section \<open>Validation of argument names\<close>

datatype param_kind =
  POSITIONAL_ONLY | POSITIONAL_OR_KEYWORD | VAR_POSITIONAL | KEYWORD_ONLY | VAR_KEYWORD

text \<open>\<open>inspect.Signature.parameters\<close>: names and kinds, in declaration order.\<close>

type_synonym parameters = "(string \<times> param_kind) list"

text \<open>
  The loop of \<open>ExpandableFactory._validate_arg_names\<close> over
  \<open>_mappable_function_argument_names\<close>, a set: \<open>names\<close> lists its elements in the order the
  set happens to iterate. The result is \<open>kwargs_left\<close>.
\<close>

fun pop_arg_names :: "string \<Rightarrow> string list \<Rightarrow> pydict \<Rightarrow> error + pydict" where
  "pop_arg_names func [] kwargs_left = Inr kwargs_left"
| "pop_arg_names func (arg_name # names) kwargs_left =
     (case map_of kwargs_left arg_name of
        None \<Rightarrow> pop_arg_names func names kwargs_left
      | Some v \<Rightarrow>
          if func = ''expand'' \<and> \<not> is_mappable v then
            Inl (ValueError (''expand() got an unexpected type '' @ py_repr (type_name v)
                   @ '' for keyword argument '' @ py_repr arg_name))
          else pop_arg_names func names (AList.delete arg_name kwargs_left))"

text \<open>\<open>ExpandableFactory._validate_arg_names\<close>; \<open>None\<close> when it returns.\<close>

definition validate_arg_names ::
  "parameters \<Rightarrow> string list \<Rightarrow> string \<Rightarrow> pydict \<Rightarrow> error option" where
  "validate_arg_names params names func kwargs =
     (if list_ex (\<lambda>p. snd p = VAR_KEYWORD) params then None
      else
        (case pop_arg_names func names kwargs of
           Inl e \<Rightarrow> Some e
         | Inr kwargs_left \<Rightarrow>
             if length kwargs_left = 1 then
               Some (TypeError (func @ ''() got an unexpected keyword argument ''
                       @ py_repr (fst (hd kwargs_left))))
             else if kwargs_left \<noteq> [] then
               Some (TypeError (func @ ''() got unexpected keyword arguments ''
                       @ join '', '' (map (py_repr \<circ> fst) kwargs_left)))
             else None))"

section \<open>The XCom client\<close>

datatype request =
    GetXCom string string string string "int option" bool
  | GetXComSequenceSlice string string string string "int option" "int option" "int option" bool

text \<open>
  What the supervisor sends back: the two result kinds the client expects, or a message
  of another kind.
\<close>

datatype reply =
    XComResult string pyval
  | XComSequenceSliceResult "pyval list"
  | OtherReply string

record log_record =
  level :: string
  event :: string
  log_fields :: pydict

definition opt_int :: "int option \<Rightarrow> pyval" where
  "opt_int i = (case i of None \<Rightarrow> PNone | Some n \<Rightarrow> PInt n)"

text \<open>
  The channel and the codec are collaborators: \<open>send\<close> is \<open>SUPERVISOR_COMMS.send\<close>,
  \<open>deserialize\<close> is \<open>serde.deserialize\<close>, and \<open>render msg\<close> is the text
  \<open>f"{type(msg)} {msg}"\<close>. Each may raise.
\<close>

record comms =
  send :: "request \<Rightarrow> error + reply"
  deserialize :: "pyval \<Rightarrow> error + pyval"
  render :: "reply \<Rightarrow> string"

text \<open>\<open>BaseXCom.get_one\<close>, with the log it writes to.\<close>

definition get_one ::
  "comms \<Rightarrow> string \<Rightarrow> string \<Rightarrow> string \<Rightarrow> string \<Rightarrow> int option \<Rightarrow> bool \<Rightarrow> log_record list
     \<Rightarrow> (error + pyval) \<times> log_record list" where
  "get_one c key dagid task_id run_id map_index include_prior_dates log =
     (case send c (GetXCom key dagid task_id run_id map_index include_prior_dates) of
        Inl e \<Rightarrow> (Inl e, log)
      | Inr msg \<Rightarrow>
          (case msg of
             XComResult k v \<Rightarrow>
               if v \<noteq> PNone then (deserialize c v, log)
               else
                 (Inr PNone,
                  log @ [\<lparr>level = ''warning'',
                          event = ''No XCom value found; defaulting to None.'',
                          log_fields = [(''key'', PStr key), (''dag_id'', PStr dagid),
                                    (''task_id'', PStr task_id), (''run_id'', PStr run_id),
                                    (''map_index'', opt_int map_index)]\<rparr>])
           | _ \<Rightarrow> (Inl (TypeError (''Expected XComResult, received: '' @ render c msg)), log)))"

text \<open>The list comprehension of \<open>get_all\<close>: the first value that fails to decode raises.\<close>

fun deserialize_all :: "(pyval \<Rightarrow> error + pyval) \<Rightarrow> pyval list \<Rightarrow> error + pyval list" where
  "deserialize_all f [] = Inr []"
| "deserialize_all f (v # vs) =
     (case f v of
        Inl e \<Rightarrow> Inl e
      | Inr w \<Rightarrow> (case deserialize_all f vs of Inl e \<Rightarrow> Inl e | Inr ws \<Rightarrow> Inr (w # ws)))"

text \<open>\<open>BaseXCom.get_all\<close>.\<close>

definition get_all ::
  "comms \<Rightarrow> string \<Rightarrow> string \<Rightarrow> string \<Rightarrow> string \<Rightarrow> bool \<Rightarrow> error + pyval" where
  "get_all c key dagid task_id run_id include_prior_dates =
     (case send c (GetXComSequenceSlice key dagid task_id run_id None None None
                     include_prior_dates) of
        Inl e \<Rightarrow> Inl e
      | Inr msg \<Rightarrow>
          (case msg of
             XComSequenceSliceResult root \<Rightarrow>
               if root = [] then Inr PNone
               else (case deserialize_all (deserialize c) root of
                       Inl e \<Rightarrow> Inl e
                     | Inr ws \<Rightarrow> Inr (PList ws))
           | _ \<Rightarrow> Inl (TypeError (''Expected XComSequenceSliceResult, received: ''
                          @ render c msg))))"

section \<open>Dictionary operations and truth values\<close>

text \<open>\<open>d.get(k, default)\<close>, which is also the value \<open>d.pop(k, default)\<close> returns.\<close>

definition dict_get :: "pydict \<Rightarrow> string \<Rightarrow> pyval \<Rightarrow> pyval" where
  "dict_get d k dflt = (case map_of d k of Some v \<Rightarrow> v | None \<Rightarrow> dflt)"

text \<open>\<open>d1.update(d2)\<close> and \<open>{**d1, **d2}\<close>: a key keeps its place, a new key goes last.\<close>

definition dict_update :: "pydict \<Rightarrow> pydict \<Rightarrow> pydict" where
  "dict_update d1 d2 = fold (\<lambda>(k, v). AList.update k v) d2 d1"

definition setdefault :: "string \<Rightarrow> pyval \<Rightarrow> pydict \<Rightarrow> pydict" where
  "setdefault k v d = (if k \<in> set (map fst d) then d else d @ [(k, v)])"

fun truthy :: "pyval \<Rightarrow> bool" where
  "truthy PNone = False"
| "truthy (PBool b) = b"
| "truthy (PInt n) = (n \<noteq> 0)"
| "truthy (PStr s) = (s \<noteq> [])"
| "truthy (PList xs) = (xs \<noteq> [])"
| "truthy (PTuple xs) = (xs \<noteq> [])"
| "truthy (PDict kvs) = (kvs \<noteq> [])"
| "truthy _ = True"

text \<open>
  Iterating a value: a dictionary yields its keys, a string its characters. Opaque
  objects and task groups are outside the model.
\<close>

fun iterate :: "pyval \<Rightarrow> error + pyval list" where
  "iterate (PList xs) = Inr xs"
| "iterate (PTuple xs) = Inr xs"
| "iterate (PStr s) = Inr (map (\<lambda>c. PStr [c]) s)"
| "iterate (PDict kvs) = Inr (map (PStr \<circ> fst) kvs)"
| "iterate (PObj c) = Inl (Unmodelled ''iteration of an opaque object'')"
| "iterate (PTaskGroup g) = Inl (Unmodelled ''iteration of a task group'')"
| "iterate v = Inl (TypeError (py_repr (type_name v) @ '' object is not iterable''))"

text \<open>\<open>v.values()\<close>.\<close>

fun values_of :: "pyval \<Rightarrow> error + pyval list" where
  "values_of (PDict kvs) = Inr (map snd kvs)"
| "values_of (PObj c) = Inl (Unmodelled ''attribute of an opaque object'')"
| "values_of v = Inl (AttributeError (py_repr (type_name v) @ '' object has no attribute ''
                        @ py_repr ''values''))"

section \<open>Collaborators of the task decorator\<close>

text \<open>
  Modelled from the spec: \<open>TriggerRule\<close> (airflow.utils.trigger_rule) is not in src. It is
  a string enumeration, so a member equals its string value: the "always"-run variant, and
  the rule "run regardless of upstream outcome, but only if setup succeeded".
\<close>

definition ALWAYS :: pyval where
  "ALWAYS = PStr ''always''"

definition ALL_DONE_SETUP_SUCCESS :: pyval where
  "ALL_DONE_SETUP_SUCCESS = PStr ''all_done_setup_success''"

text \<open>
  Modelled from the spec: \<open>prevent_duplicates\<close> (airflow.utils.helpers) is not in src.
  "Reject if any key already exists among the partial kwargs ("mapping already partial" --
  names listed deterministically)": the keys common to both dictionaries are an error
  that starts with the reason and lists them, sorted.
\<close>

definition prevent_duplicates :: "pydict \<Rightarrow> pydict \<Rightarrow> string \<Rightarrow> error option" where
  "prevent_duplicates kwargs1 kwargs2 fail_reason =
     (case sort (remdups (filter (\<lambda>k. k \<in> set (map fst kwargs2)) (map fst kwargs1))) of
        [] \<Rightarrow> None
      | [k] \<Rightarrow> Some (TypeError (fail_reason @ '' argument: '' @ k))
      | ks \<Rightarrow> Some (TypeError (fail_reason @ '' arguments: '' @ join '', '' ks)))"

datatype expand_input =
    EXPAND_INPUT_EMPTY
  | DictOfListsExpandInput pydict
  | ListOfDictsExpandInput pyval

fun expand_input_value :: "expand_input \<Rightarrow> pyval" where
  "expand_input_value EXPAND_INPUT_EMPTY = PDict []"
| "expand_input_value (DictOfListsExpandInput m) = PDict m"
| "expand_input_value (ListOfDictsExpandInput v) = v"

text \<open>The keyword arguments \<open>__call__\<close> hands to \<open>operator_class\<close>.\<close>

record operator_init =
  python_callable :: string
  op_args :: "pyval list"
  op_kwargs :: pydict
  init_multiple_outputs :: bool
  init_kwargs :: pydict

text \<open>
  Modelled from the spec: \<open>BaseOperator\<close> (airflow.sdk.bases.operator) is not in src. The
  node "\<open>TaskTemplate\<close>" carries its scheduling metadata (trigger rule, retry policy,
  setup/teardown role): it keeps the keyword arguments it was created with, and the
  attributes \<open>__call__\<close> assigns afterwards.
\<close>

record operator = operator_init +
  node_is_setup :: bool
  node_is_teardown :: bool
  node_on_failure_fail_dagrun :: pyval
  node_doc_md :: pyval

definition operator_trigger_rule :: "operator \<Rightarrow> pyval option" where
  "operator_trigger_rule op = map_of (init_kwargs op) ''trigger_rule''"

text \<open>
  The arguments \<open>_expand\<close> hands to \<open>DecoratedMappedOperator\<close>, which is the mapped node.
  The class attributes copied unchanged from \<open>operator_class\<close> (links, template fields,
  colours, names) are left out.
\<close>

record mapped_operator =
  mapped_expand_input :: expand_input
  mapped_partial_kwargs :: pydict
  mapped_task_id :: string
  mapped_params :: pyval
  mapped_dag :: "dag option"
  mapped_task_group :: "task_group option"
  mapped_start_date :: pyval
  mapped_end_date :: pyval
  mapped_multiple_outputs :: bool
  mapped_python_callable :: string
  op_kwargs_expand_input :: expand_input
  disallow_kwargs_override :: bool
  expand_input_attr :: string

text \<open>The trigger rule of a mapped node is the one among its partial keyword arguments.\<close>

definition mapped_trigger_rule :: "mapped_operator \<Rightarrow> pyval option" where
  "mapped_trigger_rule op = map_of (mapped_partial_kwargs op) ''trigger_rule''"

text \<open>
  What the decorator reaches outside this file, each as a parameter: the definition
  context, the table \<open>KNOWN_CONTEXT_KEYS\<close> (a set), the order in which a set of names
  iterates (\<open>iteration_order\<close> takes the elements and lists them in that order: it
  depends on the run, not on the program), the operator class (its constructor may raise; \<open>operator_class_str\<close> is how a call to it
  is named in a message), \<open>ensure_xcomarg_return_value\<close>, \<open>get_merged_defaults\<close>, the
  parameter names of \<open>BaseOperator\<close>, the date and retry coercions, and the constructor of
  the mapped operator.
\<close>

record env = definition_context +
  KNOWN_CONTEXT_KEYS :: "string list"
  iteration_order :: "string list \<Rightarrow> string list"
  operator_class :: "operator_init \<Rightarrow> error option"
  operator_class_str :: string
  ensure_xcomarg_return_value :: "pyval \<Rightarrow> error option"
  get_merged_defaults :: "dag option \<Rightarrow> task_group option \<Rightarrow> pyval \<Rightarrow> pyval \<Rightarrow> error + (pydict \<times> pyval)"
  base_operator_parameters :: "string list"
  convert_to_utc :: "pyval \<Rightarrow> error + pyval"
  parse_retries :: "pyval \<Rightarrow> error + pyval"
  coerce_timedelta :: "pyval \<Rightarrow> error + pyval"
  coerce_resources :: "pyval \<Rightarrow> error + pyval"
  mapped_operator_init :: "mapped_operator \<Rightarrow> error option"

section \<open>The task decorator\<close>

text \<open>
  \<open>_TaskDecorator\<close>: the wrapped function is kept by its name, docstring and signature.
\<close>

record task_decorator =
  function_name :: string
  function_doc :: "string option"
  function_signature :: parameters
  multiple_outputs :: bool
  kwargs :: pydict
  decorator_name :: string
  is_setup :: bool
  is_teardown :: bool
  on_failure_fail_dagrun :: bool

text \<open>\<open>__attrs_post_init__\<close>, which also runs on the copy \<open>attr.evolve\<close> makes.\<close>

definition attrs_post_init :: "task_decorator \<Rightarrow> error + task_decorator" where
  "attrs_post_init self =
     (if ''self'' \<in> set (map fst (function_signature self)) then
        Inl (TypeError (''@'' @ decorator_name self @ '' does not support methods''))
      else Inr (self\<lparr>kwargs := setdefault ''task_id'' (PStr (function_name self)) (kwargs self)\<rparr>))"

definition teardown_message :: string where
  "teardown_message = ''Trigger rule not configurable for teardown tasks.''"

text \<open>
  \<open>_TaskDecorator.__call__\<close>. It updates \<open>self.kwargs\<close> in place, so the decorator is
  returned with the result. A key of \<open>self.kwargs\<close> that repeats one of the four keywords
  written in the call is a \<open>TypeError\<close> of the call itself.
\<close>

definition call ::
  "env \<Rightarrow> task_decorator \<Rightarrow> pyval list \<Rightarrow> pydict \<Rightarrow> (error + operator) \<times> task_decorator" where
  "call e self args call_kwargs =
     (if is_teardown self \<and> ''trigger_rule'' \<in> set (map fst (kwargs self)) then
        (Inl (ValueError teardown_message), self)
      else
        (let kw1 = (if is_teardown self
                    then AList.update ''trigger_rule'' ALL_DONE_SETUP_SUCCESS (kwargs self)
                    else kwargs self);
             on_failure = dict_get kw1 ''on_failure_fail_dagrun''
                            (PBool (on_failure_fail_dagrun self));
             kw2 = AList.delete ''on_failure_fail_dagrun'' kw1;
             self' = self\<lparr>kwargs := kw2\<rparr>
         in case filter (\<lambda>k. k \<in> set [''python_callable'', ''op_args'', ''op_kwargs'',
                                        ''multiple_outputs'']) (map fst kw2) of
              k # _ \<Rightarrow>
                (Inl (TypeError (operator_class_str e
                        @ '' got multiple values for keyword argument '' @ py_repr k)), self')
            | [] \<Rightarrow>
                (let init = \<lparr>python_callable = function_name self, op_args = args,
                              op_kwargs = call_kwargs,
                              init_multiple_outputs = multiple_outputs self,
                              init_kwargs = kw2\<rparr>
                 in case operator_class e init of
                      Some err \<Rightarrow> (Inl err, self')
                    | None \<Rightarrow>
                        (let op_doc_attrs = map (\<lambda>k. dict_get kw2 k PNone)
                               [''doc'', ''doc_json'', ''doc_md'', ''doc_rst'', ''doc_yaml''];
                             doc_md =
                               (case function_doc self of
                                  Some d \<Rightarrow>
                                    if d \<noteq> [] \<and> \<not> list_ex truthy op_doc_attrs then PStr d
                                    else dict_get kw2 ''doc_md'' PNone
                                | None \<Rightarrow> dict_get kw2 ''doc_md'' PNone)
                         in (Inr (operator_init.extend init
                                    \<lparr>node_is_setup = is_setup self,
                                     node_is_teardown = is_teardown self,
                                     node_on_failure_fail_dagrun = on_failure,
                                     node_doc_md = doc_md\<rparr>), self')))))"

text \<open>
  \<open>_TaskDecorator._validate_arg_names\<close>: context variables first, then the names. Both
  \<open>context_keys_being_mapped\<close> and \<open>_mappable_function_argument_names\<close> are sets, visited in
  the order \<open>iteration_order\<close> gives.
\<close>

definition validate_task_arg_names ::
  "env \<Rightarrow> task_decorator \<Rightarrow> string \<Rightarrow> pydict \<Rightarrow> error option" where
  "validate_task_arg_names e self func map_kwargs =
     (let context_keys_being_mapped =
            iteration_order e
              (filter (\<lambda>k. k \<in> set (map fst map_kwargs)) (remdups (KNOWN_CONTEXT_KEYS e)))
      in if length context_keys_being_mapped = 1 then
           Some (ValueError (''cannot call '' @ func @ ''() on task context variable ''
                   @ py_repr (hd context_keys_being_mapped)))
         else if context_keys_being_mapped \<noteq> [] then
           Some (ValueError (''cannot call '' @ func @ ''() on task context variables ''
                   @ join '', '' (map py_repr context_keys_being_mapped)))
         else validate_arg_names (function_signature self)
                (iteration_order e (remdups (map fst (function_signature self))))
                func map_kwargs)"

text \<open>
  The values under \<open>dag\<close> and \<open>task_group\<close> are a DAG, a task group or \<open>None\<close>; any other
  value is outside the model.
\<close>

fun as_dag :: "pyval \<Rightarrow> error + dag option" where
  "as_dag PNone = Inr None"
| "as_dag (PDag d) = Inr (Some d)"
| "as_dag v = Inl (Unmodelled ''dag is not a DAG'')"

fun as_task_group :: "pyval \<Rightarrow> error + task_group option" where
  "as_task_group PNone = Inr None"
| "as_task_group (PTaskGroup g) = Inr (Some g)"
| "as_task_group v = Inl (Unmodelled ''task_group is not a TaskGroup'')"

text \<open>\<open>v < 1\<close>.\<close>

fun less_than_one :: "pyval \<Rightarrow> error + bool" where
  "less_than_one (PInt n) = Inr (n < 1)"
| "less_than_one (PBool b) = Inr (\<not> b)"
| "less_than_one (PObj c) = Inl (Unmodelled ''comparison of an opaque object'')"
| "less_than_one (PDag d) = Inl (Unmodelled ''comparison of a DAG'')"
| "less_than_one v =
     Inl (TypeError (py_repr ''<'' @ '' not supported between instances of ''
            @ py_repr (type_name v) @ '' and '' @ py_repr ''int''))"

text \<open>The loop over \<open>retries\<close>, \<open>retry_delay\<close>, \<open>max_retry_delay\<close> and \<open>resources\<close>.\<close>

fun apply_conversions ::
  "(string \<times> (pyval \<Rightarrow> error + pyval)) list \<Rightarrow> pydict \<Rightarrow> error + pydict" where
  "apply_conversions [] partial_kwargs = Inr partial_kwargs"
| "apply_conversions ((fld, convert) # rest) partial_kwargs =
     (case map_of partial_kwargs fld of
        None \<Rightarrow> apply_conversions rest partial_kwargs
      | Some v \<Rightarrow>
          (case convert v of
             Inl err \<Rightarrow> Inl err
           | Inr w \<Rightarrow> apply_conversions rest (AList.update fld w partial_kwargs)))"

text \<open>
  The first half of \<open>_TaskDecorator._expand\<close>: the dag and task group, the merged
  defaults, and \<open>partial_kwargs\<close> as it stands before \<open>task_id\<close> is popped.
\<close>

definition resolve_dag :: "env \<Rightarrow> pydict \<Rightarrow> error + dag option" where
  "resolve_dag e task_kwargs =
     (let v = dict_get task_kwargs ''dag'' PNone
      in if truthy v then as_dag v else Inr (current_dag e))"

definition resolve_task_group :: "env \<Rightarrow> pydict \<Rightarrow> dag option \<Rightarrow> error + task_group option" where
  "resolve_task_group e task_kwargs dag =
     (let v = dict_get task_kwargs ''task_group'' PNone
      in if truthy v then as_task_group v else Inr (current_task_group e dag))"

definition build_partial_kwargs :: "env \<Rightarrow> task_decorator \<Rightarrow> pydict \<Rightarrow> pydict \<Rightarrow> pydict" where
  "build_partial_kwargs e self default_args task_kwargs =
     (let partial_kwargs = [(''is_setup'', PBool (is_setup self)),
                            (''is_teardown'', PBool (is_teardown self)),
                            (''on_failure_fail_dagrun'', PBool (on_failure_fail_dagrun self))];
          ignore = [''default_args'', ''kwargs'', ''do_xcom_push'', ''multiple_outputs'',
                    ''params'', ''task_concurrency''];
          partial_keys = filter (\<lambda>k. k \<notin> set ignore) (base_operator_parameters e);
          partial_kwargs = dict_update partial_kwargs
                             (filter (\<lambda>(key, v). key \<in> set partial_keys) default_args)
      in dict_update partial_kwargs task_kwargs)"

text \<open>The check of \<open>pool_slots\<close>, with the task id already qualified by its group.\<close>

definition check_pool_slots :: "pydict \<Rightarrow> string \<Rightarrow> dag option \<Rightarrow> error option" where
  "check_pool_slots partial_kwargs task_id dag =
     (case map_of partial_kwargs ''pool_slots'' of
        None \<Rightarrow> None
      | Some slots \<Rightarrow>
          (case less_than_one slots of
             Inl err \<Rightarrow> Some err
           | Inr False \<Rightarrow> None
           | Inr True \<Rightarrow>
               Some (ValueError (''pool slots for '' @ task_id
                       @ (case dag of Some d \<Rightarrow> '' in dag '' @ dag_id d | None \<Rightarrow> [])
                       @ '' cannot be less than 1''))))"

text \<open>The three \<open>setdefault\<close> calls and the call of the mapped operator's constructor.\<close>

definition make_mapped_operator ::
  "env \<Rightarrow> task_decorator \<Rightarrow> expand_input \<Rightarrow> bool \<Rightarrow> dag option \<Rightarrow> task_group option
     \<Rightarrow> pyval \<Rightarrow> string \<Rightarrow> pyval \<Rightarrow> pyval \<Rightarrow> pydict \<Rightarrow> error + mapped_operator" where
  "make_mapped_operator e self expand_input strict dag task_group partial_params task_id
       start_date end_date partial_kwargs0 =
     (let partial_kwargs = setdefault ''executor_config'' (PDict []) partial_kwargs0;
          partial_kwargs = setdefault ''op_args'' (PList []) partial_kwargs;
          partial_kwargs = setdefault ''op_kwargs'' (PDict []) partial_kwargs;
          operator =
            \<lparr>mapped_expand_input = EXPAND_INPUT_EMPTY,
             mapped_partial_kwargs = partial_kwargs,
             mapped_task_id = task_id,
             mapped_params = partial_params,
             mapped_dag = dag,
             mapped_task_group = task_group,
             mapped_start_date = start_date,
             mapped_end_date = end_date,
             mapped_multiple_outputs = multiple_outputs self,
             mapped_python_callable = function_name self,
             op_kwargs_expand_input = expand_input,
             disallow_kwargs_override = strict,
             expand_input_attr = ''op_kwargs_expand_input''\<rparr>
      in case mapped_operator_init e operator of
           Some err \<Rightarrow> Inl err
         | None \<Rightarrow> Inr operator)"

text \<open>
  The part of \<open>_expand\<close> after the unique task id is known: the dates, the pool slots
  and the coercions.
\<close>

definition expand_with_id ::
  "env \<Rightarrow> task_decorator \<Rightarrow> expand_input \<Rightarrow> bool \<Rightarrow> dag option \<Rightarrow> task_group option
     \<Rightarrow> pyval \<Rightarrow> string \<Rightarrow> pydict \<Rightarrow> error + mapped_operator" where
  "expand_with_id e self expand_input strict dag task_group partial_params unique_id
       partial_kwargs0 =
     (let task_id = (case task_group of Some g \<Rightarrow> child_id g unique_id | None \<Rightarrow> unique_id);
          partial_kwargs1 =
            (if truthy (dict_get partial_kwargs0 ''wait_for_downstream'' PNone)
             then AList.update ''depends_on_past'' (PBool True) partial_kwargs0
             else partial_kwargs0)
      in case convert_to_utc e (dict_get partial_kwargs1 ''start_date'' PNone) of
           Inl err \<Rightarrow> Inl err
         | Inr start_date \<Rightarrow>
             (let partial_kwargs2 = AList.delete ''start_date'' partial_kwargs1
              in case convert_to_utc e (dict_get partial_kwargs2 ''end_date'' PNone) of
                   Inl err \<Rightarrow> Inl err
                 | Inr end_date \<Rightarrow>
                     (let partial_kwargs3 = AList.delete ''end_date'' partial_kwargs2
                      in case check_pool_slots partial_kwargs3 task_id dag of
                           Some err \<Rightarrow> Inl err
                         | None \<Rightarrow>
                             (case apply_conversions
                                     [(''retries'', parse_retries e),
                                      (''retry_delay'', coerce_timedelta e),
                                      (''max_retry_delay'', coerce_timedelta e),
                                      (''resources'', coerce_resources e)] partial_kwargs3 of
                                Inl err \<Rightarrow> Inl err
                              | Inr partial_kwargs4 \<Rightarrow>
                                  make_mapped_operator e self expand_input strict dag
                                    task_group partial_params task_id start_date end_date
                                    partial_kwargs4))))"

text \<open>
  The part of \<open>_expand\<close> that pops \<open>task_id\<close> and makes it unique. A task id that is not a
  string is outside the model.
\<close>

definition finish_expand ::
  "env \<Rightarrow> task_decorator \<Rightarrow> expand_input \<Rightarrow> bool \<Rightarrow> dag option \<Rightarrow> task_group option
     \<Rightarrow> pyval \<Rightarrow> pydict \<Rightarrow> error + mapped_operator" where
  "finish_expand e self expand_input strict dag task_group partial_params partial_kwargs =
     (case map_of partial_kwargs ''task_id'' of
        None \<Rightarrow> Inl (KeyError (py_repr ''task_id''))
      | Some v \<Rightarrow>
          (case v of
             PStr tid \<Rightarrow>
               (case get_unique_task_id e tid dag task_group of
                  Inl err \<Rightarrow> Inl err
                | Inr unique_id \<Rightarrow>
                    expand_with_id e self expand_input strict dag task_group partial_params
                      unique_id (AList.delete ''task_id'' partial_kwargs))
           | _ \<Rightarrow> Inl (Unmodelled ''task_id is not a string'')))"

text \<open>\<open>_TaskDecorator._expand\<close>. It works on a copy of \<open>self.kwargs\<close>.\<close>

definition private_expand ::
  "env \<Rightarrow> task_decorator \<Rightarrow> expand_input \<Rightarrow> bool \<Rightarrow> error + mapped_operator" where
  "private_expand e self expand_input strict =
     (case ensure_xcomarg_return_value e (expand_input_value expand_input) of
        Some err \<Rightarrow> Inl err
      | None \<Rightarrow>
          (let task_kwargs = kwargs self
           in case resolve_dag e task_kwargs of
                Inl err \<Rightarrow> Inl err
              | Inr dag \<Rightarrow>
          (let task_kwargs = AList.delete ''dag'' task_kwargs
           in case resolve_task_group e task_kwargs dag of
                Inl err \<Rightarrow> Inl err
              | Inr task_group \<Rightarrow>
          (let task_kwargs = AList.delete ''task_group'' task_kwargs;
               task_params = dict_get task_kwargs ''params'' PNone;
               task_kwargs = AList.delete ''params'' task_kwargs;
               task_default_args = dict_get task_kwargs ''default_args'' PNone;
               task_kwargs = AList.delete ''default_args'' task_kwargs
           in case get_merged_defaults e dag task_group task_params task_default_args of
                Inl err \<Rightarrow> Inl err
              | Inr (default_args, partial_params) \<Rightarrow>
                  finish_expand e self expand_input strict dag task_group partial_params
                    (build_partial_kwargs e self default_args task_kwargs)))))"

definition always_message :: "string \<Rightarrow> string" where
  "always_message func =
     ''Task-generated mapping within a task using '' @ py_repr func
       @ '' is not allowed with trigger rule '' @ py_repr ''always'' @ ''.''"

text \<open>
  \<open>_TaskDecorator.expand\<close>. A teardown decorator has its \<open>kwargs\<close> updated in place before
  \<open>_expand\<close> runs, so the decorator is returned with the result.
\<close>

definition expand ::
  "env \<Rightarrow> task_decorator \<Rightarrow> pydict \<Rightarrow> (error + mapped_operator) \<times> task_decorator" where
  "expand e self map_kwargs =
     (if map_of (kwargs self) ''trigger_rule'' = Some ALWAYS
         \<and> list_ex is_XComArg (map snd map_kwargs) then
        (Inl (ValueError (always_message ''expand'')), self)
      else if map_kwargs = [] then
        (Inl (TypeError ''no arguments to expand against''), self)
      else
        (case validate_task_arg_names e self ''expand'' map_kwargs of
           Some err \<Rightarrow> (Inl err, self)
         | None \<Rightarrow>
             (case prevent_duplicates (kwargs self) map_kwargs ''mapping already partial'' of
                Some err \<Rightarrow> (Inl err, self)
              | None \<Rightarrow>
                  if is_teardown self \<and> ''trigger_rule'' \<in> set (map fst (kwargs self)) then
                    (Inl (ValueError teardown_message), self)
                  else
                    (let self' =
                           (if is_teardown self
                            then self\<lparr>kwargs := AList.update ''trigger_rule''
                                                   ALL_DONE_SETUP_SUCCESS (kwargs self)\<rparr>
                            else self)
                     in (private_expand e self' (DictOfListsExpandInput map_kwargs) False,
                         self')))))"

text \<open>
  The list comprehension of \<open>expand_kwargs\<close>: for every element that is not an
  \<open>XComArg\<close>, whether each of its \<open>values()\<close> is one.
\<close>

fun xcomarg_flags :: "pyval list \<Rightarrow> error + bool list" where
  "xcomarg_flags [] = Inr []"
| "xcomarg_flags (kwarg # rest) =
     (if is_XComArg kwarg then xcomarg_flags rest
      else
        (case values_of kwarg of
           Inl err \<Rightarrow> Inl err
         | Inr vs \<Rightarrow>
             (case xcomarg_flags rest of
                Inl err \<Rightarrow> Inl err
              | Inr flags \<Rightarrow> Inr (map is_XComArg vs @ flags))))"

text \<open>The condition of the first \<open>if\<close> of \<open>expand_kwargs\<close>.\<close>

definition always_check :: "task_decorator \<Rightarrow> pyval \<Rightarrow> error + bool" where
  "always_check self arg =
     (if map_of (kwargs self) ''trigger_rule'' = Some ALWAYS \<and> \<not> is_XComArg arg then
        (case iterate arg of
           Inl err \<Rightarrow> Inl err
         | Inr items \<Rightarrow>
             (case xcomarg_flags items of
                Inl err \<Rightarrow> Inl err
              | Inr flags \<Rightarrow> Inr (list_ex (\<lambda>b. b) flags)))
      else Inr False)"

definition expected_message :: "pyval \<Rightarrow> string" where
  "expected_message arg = ''expected XComArg or list[dict], not '' @ type_name arg"

text \<open>\<open>_TaskDecorator.expand_kwargs\<close>.\<close>

definition expand_kwargs ::
  "env \<Rightarrow> task_decorator \<Rightarrow> pyval \<Rightarrow> bool \<Rightarrow> error + mapped_operator" where
  "expand_kwargs e self arg strict =
     (case always_check self arg of
        Inl err \<Rightarrow> Inl err
      | Inr True \<Rightarrow> Inl (ValueError (always_message ''expand_kwargs''))
      | Inr False \<Rightarrow>
          if is_Sequence arg then
            (case iterate arg of
               Inl err \<Rightarrow> Inl err
             | Inr items \<Rightarrow>
                 if list_ex (\<lambda>item. \<not> (is_XComArg item \<or> is_Mapping item)) items then
                   Inl (TypeError (expected_message arg))
                 else private_expand e self (ListOfDictsExpandInput arg) strict)
          else if \<not> is_XComArg arg then Inl (TypeError (expected_message arg))
          else private_expand e self (ListOfDictsExpandInput arg) strict)"

text \<open>\<open>_TaskDecorator.partial\<close> and \<open>_TaskDecorator.override\<close>; each returns a copy.\<close>

definition partial :: "env \<Rightarrow> task_decorator \<Rightarrow> pydict \<Rightarrow> error + task_decorator" where
  "partial e self new_kwargs =
     (case validate_task_arg_names e self ''partial'' new_kwargs of
        Some err \<Rightarrow> Inl err
      | None \<Rightarrow>
          (case dict_get (kwargs self) ''op_kwargs'' (PDict []) of
             PDict old_kwargs \<Rightarrow>
               (case prevent_duplicates old_kwargs new_kwargs ''duplicate partial'' of
                  Some err \<Rightarrow> Inl err
                | None \<Rightarrow>
                    attrs_post_init
                      (self\<lparr>kwargs := AList.update ''op_kwargs''
                                        (PDict (dict_update new_kwargs old_kwargs))
                                        (kwargs self)\<rparr>))
           | _ \<Rightarrow> Inl (Unmodelled ''op_kwargs is not a dict'')))"

definition override :: "task_decorator \<Rightarrow> pydict \<Rightarrow> error + task_decorator" where
  "override self new_kwargs =
     attrs_post_init (self\<lparr>kwargs := dict_update (kwargs self) new_kwargs\<rparr>)"

section \<open>A sample pipeline definition\<close>

text \<open>
  Whether a value is or holds a deferred reference, which is what
  \<open>XComArg.apply_upstream_relationship\<close> looks for.
\<close>

fun has_reference :: "pyval \<Rightarrow> bool" where
  "has_reference (PXComArg x) = True"
| "has_reference (PList xs) = list_ex has_reference xs"
| "has_reference (PTuple xs) = list_ex has_reference xs"
| "has_reference (PDict kvs) = list_ex has_reference (map snd kvs)"
| "has_reference v = False"

definition no_dag_message :: string where
  "no_dag_message = ''Tried to create relationships between tasks that don'' @ [CHR 0x27]
     @ ''t have DAGs yet. Set the DAG for at least one task and try again''"

text \<open>
  The sample collaborators accept what they are given, with one exception: a node that is
  given a deferred reference is made downstream of the task referred to, and outside a DAG
  its constructor raises a \<open>ValueError\<close> instead (the list of tasks that ends its message
  is left out). \<open>sample_operator_class\<close> takes the current DAG of the context.
\<close>

definition sample_operator_class :: "dag option \<Rightarrow> operator_init \<Rightarrow> error option" where
  "sample_operator_class current init =
     (if current = None \<and> \<not> truthy (dict_get (init_kwargs init) ''dag'' PNone)
         \<and> (list_ex has_reference (op_args init)
              \<or> list_ex has_reference (map snd (op_kwargs init)))
      then Some (ValueError no_dag_message) else None)"

definition sample_mapped_operator_init :: "mapped_operator \<Rightarrow> error option" where
  "sample_mapped_operator_init op =
     (if mapped_dag op = None
         \<and> (has_reference (expand_input_value (op_kwargs_expand_input op))
              \<or> has_reference (dict_get (mapped_partial_kwargs op) ''op_args'' PNone)
              \<or> has_reference (dict_get (mapped_partial_kwargs op) ''op_kwargs'' PNone))
      then Some (ValueError no_dag_message) else None)"

text \<open>
  A definition context with no current DAG, and the decorator \<open>@task\<close> makes of
  \<open>def f(a)\<close>; then the same decorator as a teardown, as a teardown with an explicit
  trigger rule, with the trigger rule "always", and after \<open>partial(a=1)\<close>.
\<close>

definition example_env :: env where
  "example_env =
     \<lparr>current_dag = None, current_task_group = (\<lambda>_. None),
      KNOWN_CONTEXT_KEYS = [''ds'', ''ti'', ''task_instance''],
      iteration_order = (\<lambda>names. names),
      operator_class = sample_operator_class None,
      operator_class_str = ''airflow.sdk.bases.decorator.DecoratedOperator()'',
      ensure_xcomarg_return_value = (\<lambda>_. None),
      get_merged_defaults = (\<lambda>dag tg params default_args. Inr ([], PDict [])),
      base_operator_parameters = [''task_id'', ''retries'', ''trigger_rule'', ''pool_slots''],
      convert_to_utc = Inr, parse_retries = Inr, coerce_timedelta = Inr,
      coerce_resources = Inr,
      mapped_operator_init = sample_mapped_operator_init\<rparr>"

text \<open>
  The same inside \<open>with DAG("d")\<close>, after a task \<open>up\<close> has been defined there: the DAG is
  the current one and \<open>up\<close> is among its task ids.
\<close>

definition example_dag :: dag where
  "example_dag = \<lparr>dag_id = ''d'', task_ids = [''up'']\<rparr>"

definition example_dag_env :: env where
  "example_dag_env =
     example_env\<lparr>current_dag := Some example_dag,
                 operator_class := sample_operator_class (Some example_dag)\<rparr>"

definition example_task :: task_decorator where
  "example_task =
     \<lparr>function_name = ''f'', function_doc = None,
      function_signature = [(''a'', POSITIONAL_OR_KEYWORD)],
      multiple_outputs = False,
      kwargs = [(''task_id'', PStr ''f'')],
      decorator_name = ''task'',
      is_setup = False, is_teardown = False, on_failure_fail_dagrun = False\<rparr>"

definition example_teardown :: task_decorator where
  "example_teardown = example_task\<lparr>is_teardown := True\<rparr>"

definition example_teardown_rule :: task_decorator where
  "example_teardown_rule =
     example_task\<lparr>is_teardown := True,
                  kwargs := [(''task_id'', PStr ''f''), (''trigger_rule'', PStr ''all_success'')]\<rparr>"

definition example_always :: task_decorator where
  "example_always =
     example_task\<lparr>kwargs := [(''task_id'', PStr ''f''), (''trigger_rule'', PStr ''always'')]\<rparr>"

definition example_partial :: task_decorator where
  "example_partial =
     example_task\<lparr>kwargs := [(''task_id'', PStr ''f''),
                               (''op_kwargs'', PDict [(''a'', PInt 1)])]\<rparr>"

section \<open>Properties of the identifier allocator\<close>

text \<open>
  C8: a desired identifier that is not among the used identifiers of the pipeline is
  returned unchanged. The identifier looked up in \<open>dag.task_ids\<close> is the one the pipeline
  knows the task by: the task id, qualified by the task group when there is one.
\<close>

theorem get_unique_task_id_unused:
  "py_or dag0 (current_dag ctx) = Some dag \<Longrightarrow>
   tg_task_id (py_or tg0 (current_task_group ctx (Some dag))) task_id \<notin> set (task_ids dag) \<Longrightarrow>
   get_unique_task_id ctx task_id dag0 tg0 = Inr task_id"
  by (simp add: get_unique_task_id_def)

theorem get_unique_task_id_unused_witness:
  "py_or (Some \<lparr>dag_id = ''d'', task_ids = [''u'', ''t__1'']\<rparr>)
      (current_dag \<lparr>current_dag = None, current_task_group = (\<lambda>_. None)\<rparr>)
     = Some \<lparr>dag_id = ''d'', task_ids = [''u'', ''t__1'']\<rparr>
   \<and> tg_task_id (py_or None (current_task_group
          \<lparr>current_dag = None, current_task_group = (\<lambda>_. None)\<rparr>
          (Some \<lparr>dag_id = ''d'', task_ids = [''u'', ''t__1'']\<rparr>))) ''t''
       \<notin> set (task_ids \<lparr>dag_id = ''d'', task_ids = [''u'', ''t__1'']\<rparr>)
   \<and> get_unique_task_id \<lparr>current_dag = None, current_task_group = (\<lambda>_. None)\<rparr> ''t''
         (Some \<lparr>dag_id = ''d'', task_ids = [''u'', ''t__1'']\<rparr>) None = Inr ''t''"
  using get_unique_task_id_unused
    [of "Some \<lparr>dag_id = ''d'', task_ids = [''u'', ''t__1'']\<rparr>"
        "\<lparr>current_dag = None, current_task_group = (\<lambda>_. None)\<rparr>"
        "\<lparr>dag_id = ''d'', task_ids = [''u'', ''t__1'']\<rparr>" None "''t''"]
  by (simp add: py_or_def tg_task_id_def)

lemma get_unique_task_id_no_dag:
  "py_or dag0 (current_dag ctx) = None \<Longrightarrow> get_unique_task_id ctx task_id dag0 tg0 = Inr task_id"
  by (simp add: get_unique_task_id_def)

text \<open>
  What the two regular expressions compute: the suffix pattern matches two underscores
  and a run of digits at the end of the string (or before a newline that ends it), and
  splitting removes such a suffix.
\<close>

lemma takeWhile_all: "\<forall>x \<in> set xs. P x \<Longrightarrow> takeWhile P xs = xs"
  by simp

lemma dropWhile_all: "\<forall>x \<in> set xs. P x \<Longrightarrow> dropWhile P xs = []"
  by simp

lemma match_suffix_iff:
  "match_suffix t = Some ds \<longleftrightarrow>
     ds \<noteq> [] \<and> list_all is_digit ds \<and> (t = ''__'' @ ds \<or> t = ''__'' @ ds @ [CHR 0x0A])"
proof
  assume m: "match_suffix t = Some ds"
  then obtain r where t: "t = CHR ''_'' # CHR ''_'' # r"
    by (auto simp: match_suffix_def split: list.splits if_splits)
  from m t have ds: "ds = takeWhile is_digit r" and ne: "ds \<noteq> []"
    and rest: "dropWhile is_digit r = [] \<or> dropWhile is_digit r = [CHR 0x0A]"
    by (auto simp: match_suffix_def Let_def split: if_splits)
  have r: "r = ds @ dropWhile is_digit r" by (simp add: ds)
  have digits: "list_all is_digit ds"
    unfolding ds list_all_iff by (auto dest: set_takeWhileD)
  from rest have "r = ds \<or> r = ds @ [CHR 0x0A]"
  proof
    assume "dropWhile is_digit r = []"
    with r show ?thesis by simp
  next
    assume "dropWhile is_digit r = [CHR 0x0A]"
    with r show ?thesis by simp
  qed
  with t ne digits show "ds \<noteq> [] \<and> list_all is_digit ds
      \<and> (t = ''__'' @ ds \<or> t = ''__'' @ ds @ [CHR 0x0A])"
    by auto
next
  assume a: "ds \<noteq> [] \<and> list_all is_digit ds
      \<and> (t = ''__'' @ ds \<or> t = ''__'' @ ds @ [CHR 0x0A])"
  then have all: "\<forall>c \<in> set ds. is_digit c" by (simp add: list_all_iff)
  have nl: "\<not> is_digit (CHR 0x0A)" by (simp add: is_digit_def)
  from a show "match_suffix t = Some ds"
  proof (elim conjE disjE)
    assume "t = ''__'' @ ds" and "ds \<noteq> []"
    then show ?thesis using all
      by (simp add: match_suffix_def Let_def takeWhile_all [OF all] dropWhile_all [OF all])
  next
    assume "t = ''__'' @ ds @ [CHR 0x0A]" and "ds \<noteq> []"
    then show ?thesis using all nl
      by (simp add: match_suffix_def Let_def takeWhile_append2 dropWhile_append2)
  qed
qed

lemma match_suffix_no_underscore:
  assumes "match_suffix (c # t) = Some ds"
  shows "CHR ''_'' \<notin> set (tl t)"
proof -
  from assms have digits: "\<forall>x \<in> set ds. is_digit x"
    and shape: "c # t = ''__'' @ ds \<or> c # t = ''__'' @ ds @ [CHR 0x0A]"
    by (simp_all add: match_suffix_iff list_all_iff)
  have "\<not> is_digit (CHR ''_'')" by (simp add: is_digit_def)
  with digits have "CHR ''_'' \<notin> set ds" by auto
  with shape show ?thesis by auto
qed

lemma split_head_suffix:
  assumes "ds \<noteq> []" and "list_all is_digit ds"
  shows "split_head (s @ ''__'' @ ds) = s"
proof (induction s)
  case Nil
  have "match_suffix (''__'' @ ds) = Some ds"
    using assms by (simp add: match_suffix_iff)
  then show ?case by simp
next
  case (Cons c s)
  have "match_suffix (c # s @ ''__'' @ ds) = None"
  proof (rule ccontr)
    assume "match_suffix (c # s @ ''__'' @ ds) \<noteq> None"
    then obtain ds' where "match_suffix (c # s @ ''__'' @ ds) = Some ds'" by auto
    then have "CHR ''_'' \<notin> set (tl (s @ ''__'' @ ds))"
      by (rule match_suffix_no_underscore)
    then show False by (cases s) auto
  qed
  with Cons.IH show ?case by simp
qed

text \<open>The suffixes found depend on the set of used identifiers only, not on its order.\<close>

lemma set_map_filter_eq:
  "set (List.map_filter f xs) = {y. \<exists>x \<in> set xs. f x = Some y}"
  by (induction xs) (auto split: option.splits)

lemma set_find_id_suffixes:
  "set (find_id_suffixes pat ids) =
     insert 0 (int_of_digits ` {ds. \<exists>i \<in> set ids. re_match_id pat i = Some ds})"
  by (simp add: find_id_suffixes_def set_map_filter_eq)

lemma find_id_suffixes_order:
  "set ids = set ids' \<Longrightarrow>
   Max (set (find_id_suffixes pat ids)) = Max (set (find_id_suffixes pat ids'))"
  by (simp add: set_find_id_suffixes)

text \<open>
  For a plain stem, outside a task group, the result is the stem, two underscores, and
  one more than the largest number \<open>N\<close> for which \<open>stem__N\<close> is in use (zero when there is
  none).
\<close>

lemma compile_prefix_plain: "plain s \<Longrightarrow> compile_prefix s = Some (map Lit s)"
  by (auto simp: plain_def compile_prefix_def)

lemma match_atoms_Lit: "match_atoms (map Lit s) i = Some rest \<longleftrightarrow> i = s @ rest"
proof (induction s arbitrary: i)
  case Nil
  then show ?case by auto
next
  case (Cons c s)
  show ?case
  proof (cases i)
    case Nil
    then show ?thesis by simp
  next
    case (Cons d j)
    then show ?thesis using Cons.IH [of j] by auto
  qed
qed

lemma re_match_id_plain:
  "re_match_id (map Lit s) i = Some ds \<longleftrightarrow>
     ds \<noteq> [] \<and> list_all is_digit ds
     \<and> (i = s @ ''__'' @ ds \<or> i = s @ ''__'' @ ds @ [CHR 0x0A])"
proof -
  have "re_match_id (map Lit s) i = Some ds
        \<longleftrightarrow> (\<exists>rest. i = s @ rest \<and> match_suffix rest = Some ds)"
  proof (cases "match_atoms (map Lit s) i")
    case None
    then have "\<And>rest. i \<noteq> s @ rest"
      using match_atoms_Lit [of s i] by auto
    with None show ?thesis by (simp add: re_match_id_def)
  next
    case (Some rest)
    then have "i = s @ rest" by (simp add: match_atoms_Lit)
    with Some show ?thesis by (simp add: re_match_id_def)
  qed
  then show ?thesis by (auto simp: match_suffix_iff)
qed

lemma get_unique_task_id_plain:
  assumes used: "d \<in> set (task_ids dag)"
    and group: "py_or tg0 (current_task_group ctx (Some dag)) = None"
    and plain: "plain (split_head d)"
  shows "get_unique_task_id ctx d (Some dag) tg0 =
     Inr (split_head d @ ''__'' @ str_nat (Max (insert 0 {int_of_digits ds |ds.
            ds \<noteq> [] \<and> list_all is_digit ds
            \<and> (split_head d @ ''__'' @ ds \<in> set (task_ids dag)
               \<or> split_head d @ ''__'' @ ds @ [CHR 0x0A] \<in> set (task_ids dag))}) + 1))"
proof -
  have "{ds. \<exists>i \<in> set (task_ids dag). re_match_id (map Lit (split_head d)) i = Some ds}
      = {ds. ds \<noteq> [] \<and> list_all is_digit ds
            \<and> (split_head d @ ''__'' @ ds \<in> set (task_ids dag)
               \<or> split_head d @ ''__'' @ ds @ [CHR 0x0A] \<in> set (task_ids dag))}"
    by (auto simp: re_match_id_plain)
  then have "set (find_id_suffixes (map Lit (split_head d)) (task_ids dag))
      = insert 0 {int_of_digits ds |ds. ds \<noteq> [] \<and> list_all is_digit ds
            \<and> (split_head d @ ''__'' @ ds \<in> set (task_ids dag)
               \<or> split_head d @ ''__'' @ ds @ [CHR 0x0A] \<in> set (task_ids dag))}"
    by (auto simp: set_find_id_suffixes)
  then show ?thesis
    using used group compile_prefix_plain [OF plain]
    by (simp add: get_unique_task_id_def py_or_def tg_task_id_def)
qed

text \<open>
  C2 reads the identifiers \<open>stem__N\<close> literally. The code puts the stem into a regular
  expression unescaped, so a dot in it matches any character: with the task id \<open>a.b\<close> and
  the used identifiers \<open>a.b\<close> and \<open>axb__7\<close>, no identifier \<open>a.b__N\<close> is in use, yet the
  result is \<open>a.b__8\<close> and not \<open>a.b__1\<close>.
\<close>

theorem get_unique_task_id_dot_wildcard:
  "get_unique_task_id example_env ''a.b''
     (Some \<lparr>dag_id = ''d'', task_ids = [''a.b'', ''axb__7'']\<rparr>) None = Inr ''a.b__8''"
  by code_simp

text \<open>The example of the specification: gaps are tolerated, the maximum counts.\<close>

lemma get_unique_task_id_example:
  "get_unique_task_id example_env ''t''
     (Some \<lparr>dag_id = ''d'', task_ids = [''t'', ''t__1'', ''t__3'']\<rparr>) None = Inr ''t__4''"
  by code_simp

section \<open>Properties of the validation of argument names\<close>

text \<open>
  With the values it is asked to expand all mappable, or when validating for \<open>partial\<close>,
  the loop pops exactly the declared names.
\<close>

lemma pop_arg_names_ok:
  "(func = ''expand'' \<longrightarrow> (\<forall>(k, v) \<in> set K. k \<in> set names \<longrightarrow> is_mappable v)) \<Longrightarrow>
   pop_arg_names func names K = Inr (filter (\<lambda>p. fst p \<notin> set names) K)"
proof (induction names arbitrary: K)
  case Nil
  then show ?case by simp
next
  case (Cons a names)
  show ?case
  proof (cases "map_of K a")
    case None
    then have "a \<notin> fst ` set K" by (simp add: map_of_eq_None_iff)
    then have "filter (\<lambda>p. fst p \<notin> set (a # names)) K = filter (\<lambda>p. fst p \<notin> set names) K"
      by (intro filter_cong) auto
    moreover have "pop_arg_names func names K = Inr (filter (\<lambda>p. fst p \<notin> set names) K)"
      using Cons.prems by (intro Cons.IH) auto
    ultimately show ?thesis using None by simp
  next
    case (Some v)
    then have mem: "(a, v) \<in> set K" by (rule map_of_SomeD)
    have ok: "\<not> (func = ''expand'' \<and> \<not> is_mappable v)"
      using Cons.prems mem by auto
    have "pop_arg_names func names (AList.delete a K)
            = Inr (filter (\<lambda>p. fst p \<notin> set names) (AList.delete a K))"
      using Cons.prems by (intro Cons.IH) (auto simp: AList.delete_eq)
    moreover have "filter (\<lambda>p. fst p \<notin> set names) (AList.delete a K)
            = filter (\<lambda>p. fst p \<notin> set (a # names)) K"
      by (auto simp: AList.delete_eq intro: filter_cong)
    ultimately show ?thesis using Some ok by simp
  qed
qed

text \<open>
  C7, as amended: a signature with a catch-all keyword parameter accepts every key.
  Without one, and provided that a validation for \<open>expand\<close> finds every value supplied for
  a declared parameter mappable, the keys of \<open>K\<close> that are not declared decide the
  outcome: none, and validation returns; one, and the \<open>TypeError\<close> names it; several, and
  the \<open>TypeError\<close> lists them all, joined by commas, in the insertion order of \<open>K\<close>. This
  holds for every order in which the set of declared names iterates.
\<close>

theorem validate_arg_names_unexpected:
  "(list_ex (\<lambda>p. snd p = VAR_KEYWORD) params \<longrightarrow>
      validate_arg_names params names func K = None)
   \<and> (\<not> list_ex (\<lambda>p. snd p = VAR_KEYWORD) params \<longrightarrow>
      set names = fst ` set params \<longrightarrow>
      (func = ''expand'' \<longrightarrow> (\<forall>(k, v) \<in> set K. k \<in> fst ` set params \<longrightarrow> is_mappable v)) \<longrightarrow>
      validate_arg_names params names func K =
        (case filter (\<lambda>k. k \<notin> fst ` set params) (map fst K) of
           [] \<Rightarrow> None
         | [u] \<Rightarrow> Some (TypeError (func @ ''() got an unexpected keyword argument '' @ py_repr u))
         | us \<Rightarrow> Some (TypeError (func @ ''() got unexpected keyword arguments ''
                          @ join '', '' (map py_repr us)))))"
proof (intro conjI impI)
  assume "list_ex (\<lambda>p. snd p = VAR_KEYWORD) params"
  then show "validate_arg_names params names func K = None"
    by (simp add: validate_arg_names_def)
next
  assume nokw: "\<not> list_ex (\<lambda>p. snd p = VAR_KEYWORD) params"
    and names: "set names = fst ` set params"
    and mappable: "func = ''expand'' \<longrightarrow> (\<forall>(k, v) \<in> set K. k \<in> fst ` set params \<longrightarrow> is_mappable v)"
  define left where "left = filter (\<lambda>p. fst p \<notin> set names) K"
  have pop: "pop_arg_names func names K = Inr left"
    unfolding left_def using mappable names by (intro pop_arg_names_ok) simp
  have keys: "filter (\<lambda>k. k \<notin> fst ` set params) (map fst K) = map fst left"
    by (simp add: left_def names filter_map comp_def)
  show "validate_arg_names params names func K =
        (case filter (\<lambda>k. k \<notin> fst ` set params) (map fst K) of
           [] \<Rightarrow> None
         | [u] \<Rightarrow> Some (TypeError (func @ ''() got an unexpected keyword argument '' @ py_repr u))
         | us \<Rightarrow> Some (TypeError (func @ ''() got unexpected keyword arguments ''
                          @ join '', '' (map py_repr us))))"
  proof (cases left)
    case Nil
    then show ?thesis using nokw pop keys by (simp add: validate_arg_names_def)
  next
    case (Cons p ps)
    then show ?thesis using nokw pop keys
      by (cases ps) (simp_all add: validate_arg_names_def comp_def)
  qed
qed

theorem validate_arg_names_unexpected_witness:
  "validate_arg_names [(''x'', POSITIONAL_OR_KEYWORD), (''y'', POSITIONAL_OR_KEYWORD)]
      [''y'', ''x''] ''partial'' [(''x'', PInt 1), (''z'', PInt 2)]
     = Some (TypeError (''partial() got an unexpected keyword argument '' @ [CHR 0x27] @ ''z'' @ [CHR 0x27]))
   \<and> validate_arg_names [(''x'', POSITIONAL_OR_KEYWORD), (''y'', POSITIONAL_OR_KEYWORD)]
      [''y'', ''x''] ''expand''
      [(''x'', PList [PInt 1]), (''y'', PList [PInt 2]), (''z'', PInt 3), (''w'', PInt 4)]
     = Some (TypeError (''expand() got unexpected keyword arguments ''
               @ [CHR 0x27] @ ''z'' @ [CHR 0x27] @ '', '' @ [CHR 0x27] @ ''w'' @ [CHR 0x27]))
   \<and> validate_arg_names [(''x'', POSITIONAL_OR_KEYWORD), (''kw'', VAR_KEYWORD)]
      [''kw'', ''x''] ''partial'' [(''x'', PInt 1), (''z'', PInt 2)] = None"
  using validate_arg_names_unexpected
      [of "[(''x'', POSITIONAL_OR_KEYWORD), (''y'', POSITIONAL_OR_KEYWORD)]"
          "[''y'', ''x'']" "''partial''" "[(''x'', PInt 1), (''z'', PInt 2)]"]
    validate_arg_names_unexpected
      [of "[(''x'', POSITIONAL_OR_KEYWORD), (''y'', POSITIONAL_OR_KEYWORD)]"
          "[''y'', ''x'']" "''expand''"
          "[(''x'', PList [PInt 1]), (''y'', PList [PInt 2]), (''z'', PInt 3), (''w'', PInt 4)]"]
    validate_arg_names_unexpected
      [of "[(''x'', POSITIONAL_OR_KEYWORD), (''kw'', VAR_KEYWORD)]"
          "[''kw'', ''x'']" "''partial''" "[(''x'', PInt 1), (''z'', PInt 2)]"]
  by (simp add: py_repr_def repr_char_def printable_def Let_def insert_commute)

text \<open>
  C7, as stated, fails when validating for \<open>expand\<close>: with the declared parameter \<open>x\<close>
  and the supplied arguments \<open>x=1, z=[]\<close> the key \<open>z\<close> is not declared, yet what is raised
  is the \<open>ValueError\<close> about the type of \<open>x\<close>, which the loop checks first.
\<close>

theorem validate_arg_names_expand_type_first:
  "validate_arg_names [(''x'', POSITIONAL_OR_KEYWORD)] [''x''] ''expand''
      [(''x'', PInt 1), (''z'', PList [])]
     = Some (ValueError (''expand() got an unexpected type '' @ [CHR 0x27] @ ''int'' @ [CHR 0x27]
               @ '' for keyword argument '' @ [CHR 0x27] @ ''x'' @ [CHR 0x27]))"
  by (simp add: validate_arg_names_def py_repr_def repr_char_def printable_def Let_def)

section \<open>Properties of the XCom client\<close>

text \<open>
  C9: when the supervisor answers a lookup with an \<open>XComResult\<close> whose value is absent,
  \<open>get_one\<close> logs one warning and returns \<open>None\<close>; it does not raise.
\<close>

theorem get_one_absent:
  "send c (GetXCom key dagid task_id run_id map_index prior) = Inr (XComResult k PNone) \<Longrightarrow>
   get_one c key dagid task_id run_id map_index prior log =
     (Inr PNone,
      log @ [\<lparr>level = ''warning'', event = ''No XCom value found; defaulting to None.'',
              log_fields = [(''key'', PStr key), (''dag_id'', PStr dagid),
                            (''task_id'', PStr task_id), (''run_id'', PStr run_id),
                            (''map_index'', opt_int map_index)]\<rparr>])"
  by (simp add: get_one_def)

theorem get_one_absent_witness:
  "send \<lparr>send = (\<lambda>_. Inr (XComResult ''k'' PNone)), deserialize = Inr, render = (\<lambda>_. [])\<rparr>
      (GetXCom ''k'' ''d'' ''t'' ''r'' None False) = Inr (XComResult ''k'' PNone)
   \<and> get_one \<lparr>send = (\<lambda>_. Inr (XComResult ''k'' PNone)), deserialize = Inr, render = (\<lambda>_. [])\<rparr>
        ''k'' ''d'' ''t'' ''r'' None False []
     = (Inr PNone,
        [\<lparr>level = ''warning'', event = ''No XCom value found; defaulting to None.'',
          log_fields = [(''key'', PStr ''k''), (''dag_id'', PStr ''d''),
                        (''task_id'', PStr ''t''), (''run_id'', PStr ''r''),
                        (''map_index'', PNone)]\<rparr>])"
  using get_one_absent
      [of "\<lparr>send = (\<lambda>_. Inr (XComResult ''k'' PNone)), deserialize = Inr, render = (\<lambda>_. [])\<rparr>"
          "''k''" "''d''" "''t''" "''r''" None False "''k''" "[]"]
  by (simp add: opt_int_def)

lemma deserialize_all_ok:
  "map f root = map Inr ws \<Longrightarrow> deserialize_all f root = Inr ws"
  by (induction root arbitrary: ws) auto

text \<open>
  C10: when the supervisor's sequence-slice result holds no values, \<open>get_all\<close> returns
  \<open>None\<close>, not an empty list; otherwise it returns the list of the deserialized values, in
  the order the supervisor returned them.
\<close>

theorem get_all_result:
  "send c (GetXComSequenceSlice key dagid task_id run_id None None None prior)
     = Inr (XComSequenceSliceResult root) \<Longrightarrow>
   (root = [] \<longrightarrow> get_all c key dagid task_id run_id prior = Inr PNone)
   \<and> (root \<noteq> [] \<longrightarrow> map (deserialize c) root = map Inr ws \<longrightarrow>
        get_all c key dagid task_id run_id prior = Inr (PList ws))"
  by (simp add: get_all_def deserialize_all_ok)

theorem get_all_result_witness:
  "get_all \<lparr>send = (\<lambda>_. Inr (XComSequenceSliceResult [])), deserialize = Inr, render = (\<lambda>_. [])\<rparr>
        ''k'' ''d'' ''t'' ''r'' False = Inr PNone
   \<and> get_all \<lparr>send = (\<lambda>_. Inr (XComSequenceSliceResult [PInt 2, PInt 1])),
               deserialize = Inr, render = (\<lambda>_. [])\<rparr>
        ''k'' ''d'' ''t'' ''r'' False = Inr (PList [PInt 2, PInt 1])"
  using get_all_result
      [of "\<lparr>send = (\<lambda>_. Inr (XComSequenceSliceResult [])), deserialize = Inr, render = (\<lambda>_. [])\<rparr>"
          "''k''" "''d''" "''t''" "''r''" False "[]" "[]"]
    get_all_result
      [of "\<lparr>send = (\<lambda>_. Inr (XComSequenceSliceResult [PInt 2, PInt 1])),
            deserialize = Inr, render = (\<lambda>_. [])\<rparr>"
          "''k''" "''d''" "''t''" "''r''" False "[PInt 2, PInt 1]" "[PInt 2, PInt 1]"]
  by simp

section \<open>Properties of the task decorator\<close>

text \<open>
  C6: whatever the state of the decorator, \<open>expand\<close> with no keyword arguments raises a
  \<open>TypeError\<close> with the message "no arguments to expand against", and leaves the decorator
  as it was.
\<close>

theorem expand_empty:
  "expand e self [] = (Inl (TypeError ''no arguments to expand against''), self)"
  by (simp add: expand_def)

text \<open>
  C1 asks that \<open>expand\<close> reject a key that \<open>partial\<close> has bound. \<open>partial\<close> stores its
  arguments under the key \<open>op_kwargs\<close> of \<open>self.kwargs\<close>, and \<open>expand\<close> looks for duplicates
  among the keys of \<open>self.kwargs\<close> itself: after \<open>partial(a=1)\<close>, \<open>expand(a=[1, 2])\<close> raises
  nothing and builds a mapped node that holds \<open>a\<close> both as a partial and as a mapped
  argument.
\<close>

theorem expand_after_partial_accepted:
  "partial example_env example_task [(''a'', PInt 1)] = Inr example_partial
   \<and> map_sum id (\<lambda>op. (map_of (mapped_partial_kwargs op) ''op_kwargs'', op_kwargs_expand_input op))
        (fst (expand example_env example_partial [(''a'', PList [PInt 1, PInt 2])]))
       = Inr (Some (PDict [(''a'', PInt 1)]),
              DictOfListsExpandInput [(''a'', PList [PInt 1, PInt 2])])"
  by code_simp

text \<open>
  C4 asks that the \<open>TypeError\<close> name the type of the offending element. The message is
  formatted from the whole argument: for \<open>expand_kwargs([1])\<close> it says \<open>list\<close>, not \<open>int\<close>.
\<close>

theorem expand_kwargs_names_container:
  "expand_kwargs example_env example_task (PList [PInt 1]) True
     = Inl (TypeError ''expected XComArg or list[dict], not list'')"
  by code_simp

subsection \<open>The trigger rule "always"\<close>

text \<open>
  Over elements that are deferred references or mappings the list comprehension does not
  raise, and it holds a true flag exactly when some mapping has a deferred reference
  among its values.
\<close>

lemma xcomarg_flags_ok:
  "\<forall>item \<in> set items. is_XComArg item \<or> is_Mapping item \<Longrightarrow>
   \<exists>flags. xcomarg_flags items = Inr flags
     \<and> (list_ex (\<lambda>b. b) flags
          \<longleftrightarrow> (\<exists>kvs. PDict kvs \<in> set items \<and> list_ex is_XComArg (map snd kvs)))"
proof (induction items)
  case Nil
  then show ?case by simp
next
  case (Cons item items)
  then obtain flags where flags: "xcomarg_flags items = Inr flags"
    and iff: "list_ex (\<lambda>b. b) flags
          \<longleftrightarrow> (\<exists>kvs. PDict kvs \<in> set items \<and> list_ex is_XComArg (map snd kvs))"
    by auto
  from Cons.prems have "is_XComArg item \<or> is_Mapping item" by simp
  then show ?case
  proof
    assume "is_XComArg item"
    then obtain x where "item = PXComArg x" by (cases item) auto
    then show ?thesis using flags iff by auto
  next
    assume "is_Mapping item"
    then obtain kvs where "item = PDict kvs" by (cases item) auto
    then show ?thesis using flags iff by (auto simp: list_ex_iff)
  qed
qed

text \<open>
  What the check does reject: for a decorator whose trigger rule is "always", \<open>expand\<close>
  rejects keyword arguments of which some value is a deferred reference, and
  \<open>expand_kwargs\<close> rejects a sequence of deferred references and mappings exactly when some
  mapping in it has a deferred reference among its values. A single deferred reference as
  the whole argument passes the check, and so does an element that is itself a deferred
  reference: the call goes on to \<open>_expand\<close>.
\<close>

theorem expand_kwargs_always:
  "map_of (kwargs self) ''trigger_rule'' = Some ALWAYS \<Longrightarrow>
   (list_ex is_XComArg (map snd m) \<longrightarrow>
      expand e self m = (Inl (ValueError (always_message ''expand'')), self))
   \<and> expand_kwargs e self (PXComArg x) strict
       = private_expand e self (ListOfDictsExpandInput (PXComArg x)) strict
   \<and> (is_Sequence arg \<longrightarrow> iterate arg = Inr items \<longrightarrow>
       (\<forall>item \<in> set items. is_XComArg item \<or> is_Mapping item) \<longrightarrow>
        expand_kwargs e self arg strict =
          (if \<exists>kvs. PDict kvs \<in> set items \<and> list_ex is_XComArg (map snd kvs)
           then Inl (ValueError (always_message ''expand_kwargs''))
           else private_expand e self (ListOfDictsExpandInput arg) strict))"
proof (intro conjI impI)
  assume "map_of (kwargs self) ''trigger_rule'' = Some ALWAYS"
    and "list_ex is_XComArg (map snd m)"
  then show "expand e self m = (Inl (ValueError (always_message ''expand'')), self)"
    by (simp add: expand_def)
next
  show "expand_kwargs e self (PXComArg x) strict
       = private_expand e self (ListOfDictsExpandInput (PXComArg x)) strict"
    by (simp add: expand_kwargs_def always_check_def)
next
  assume always: "map_of (kwargs self) ''trigger_rule'' = Some ALWAYS"
    and seq: "is_Sequence arg" and items: "iterate arg = Inr items"
    and shape: "\<forall>item \<in> set items. is_XComArg item \<or> is_Mapping item"
  from xcomarg_flags_ok [OF shape] obtain flags where
    flags: "xcomarg_flags items = Inr flags"
    and iff: "list_ex (\<lambda>b. b) flags
          \<longleftrightarrow> (\<exists>kvs. PDict kvs \<in> set items \<and> list_ex is_XComArg (map snd kvs))"
    by blast
  from seq have noref: "\<not> is_XComArg arg" by (cases arg) auto
  have check: "always_check self arg = Inr (list_ex (\<lambda>b. b) flags)"
    using always flags items noref by (simp add: always_check_def)
  have ok: "\<not> list_ex (\<lambda>item. \<not> (is_XComArg item \<or> is_Mapping item)) items"
    using shape by (simp add: list_ex_iff)
  show "expand_kwargs e self arg strict =
          (if \<exists>kvs. PDict kvs \<in> set items \<and> list_ex is_XComArg (map snd kvs)
           then Inl (ValueError (always_message ''expand_kwargs''))
           else private_expand e self (ListOfDictsExpandInput arg) strict)"
  proof (cases "list_ex (\<lambda>b. b) flags")
    case True
    with check have "always_check self arg = Inr True" by simp
    with True iff show ?thesis by (simp add: expand_kwargs_def)
  next
    case False
    with check have "always_check self arg = Inr False" by simp
    with False iff ok seq items show ?thesis by (auto simp: expand_kwargs_def)
  qed
qed

text \<open>
  C3 asks that \<open>expand_kwargs\<close> reject every deferred reference when the trigger rule is
  "always", as \<open>expand\<close> does. Inside a DAG in which the task \<open>up\<close> is defined, with the
  trigger rule "always", \<open>expand(a=up())\<close> is rejected, yet \<open>expand_kwargs(up())\<close>, whose
  mapping is generated by the task \<open>up\<close>, raises nothing and builds the mapped node with
  that trigger rule.
\<close>

theorem expand_kwargs_single_reference_accepted:
  "map_of (kwargs example_always) ''trigger_rule'' = Some ALWAYS
   \<and> fst (expand example_dag_env example_always [(''a'', PXComArg ''up'')])
       = Inl (ValueError
           ''Task-generated mapping within a task using 'expand' is not allowed with trigger rule 'always'.'')
   \<and> map_sum id (\<lambda>op. (mapped_task_id op, op_kwargs_expand_input op, mapped_trigger_rule op))
        (expand_kwargs example_dag_env example_always (PXComArg ''up'') True)
       = Inr (''f'', ListOfDictsExpandInput (PXComArg ''up''), Some (PStr ''always''))"
  by code_simp

text \<open>An element that is itself a deferred reference is accepted in the same way.\<close>

lemma expand_kwargs_reference_element_accepted:
  "map_sum id mapped_task_id
     (expand_kwargs example_dag_env example_always
        (PList [PXComArg ''up'', PDict [(''a'', PInt 1)]]) True) = Inr ''f''"
  by code_simp

text \<open>
  Outside a DAG the same call fails later and for another reason: the mapped node cannot be
  made downstream of \<open>up\<close>.
\<close>

lemma expand_kwargs_single_reference_no_dag:
  "expand_kwargs example_env example_always (PXComArg ''up'') True
     = Inl (ValueError no_dag_message)"
  by code_simp

subsection \<open>Teardown tasks\<close>

text \<open>Dictionary facts: what an update, a deletion and a default do to another key.\<close>

lemma map_of_dict_update:
  "map_of (dict_update d1 d2) k =
     (case map_of (rev d2) k of Some v \<Rightarrow> Some v | None \<Rightarrow> map_of d1 k)"
  unfolding dict_update_def
proof (induction d2 arbitrary: d1)
  case Nil
  then show ?case by simp
next
  case (Cons p d2)
  obtain k' v' where p: "p = (k', v')" by (cases p)
  show ?case
    by (simp add: p Cons.IH map_add_def update_conv' split: option.splits)
qed

lemma update_fresh: "k \<notin> fst ` set d \<Longrightarrow> AList.update k v d = d @ [(k, v)]"
  by (induction d) auto

lemma map_of_rev_delete:
  "k \<noteq> k' \<Longrightarrow> map_of (rev (AList.delete k' d)) k = map_of (rev d) k"
  by (induction d) (auto simp: map_add_def split: option.splits)

lemma map_of_setdefault:
  "k \<noteq> k' \<Longrightarrow> map_of (setdefault k' v d) k = map_of d k"
  by (simp add: setdefault_def map_add_def split: option.splits)

lemma apply_conversions_other:
  "apply_conversions cs pk = Inr pk' \<Longrightarrow> k \<notin> fst ` set cs \<Longrightarrow> map_of pk' k = map_of pk k"
proof (induction cs arbitrary: pk)
  case Nil
  then show ?case by simp
next
  case (Cons c cs)
  obtain fld convert where c: "c = (fld, convert)" by (cases c)
  from Cons.prems show ?case
    by (auto simp: c update_conv' dest!: Cons.IH split: option.splits sum.splits)
qed

text \<open>A chain of steps that may raise has returned only if every step has.\<close>

lemma sum_case_InrE:
  assumes "(case m of Inl err \<Rightarrow> Inl err | Inr x \<Rightarrow> f x) = Inr y"
  obtains x where "m = Inr x" and "f x = Inr y"
  using assms by (cases m) auto

lemma option_case_InrE:
  assumes "(case m of Some err \<Rightarrow> Inl err | None \<Rightarrow> r) = Inr y"
  obtains "m = None" and "r = Inr y"
  using assms by (cases m) auto

text \<open>
  \<open>_expand\<close> never touches the key \<open>trigger_rule\<close>: the mapped node has the trigger rule of
  \<open>self.kwargs\<close>.
\<close>

lemma make_mapped_operator_trigger_rule:
  "make_mapped_operator e self ei strict dag tg pp tid sd ed pk = Inr op \<Longrightarrow>
   mapped_trigger_rule op = map_of pk ''trigger_rule''"
  by (auto simp: make_mapped_operator_def mapped_trigger_rule_def Let_def map_of_setdefault
      split: option.splits)

lemma expand_with_id_trigger_rule:
  assumes "expand_with_id e self ei strict dag tg pp uid pk = Inr op"
  shows "mapped_trigger_rule op = map_of pk ''trigger_rule''"
  using assms unfolding expand_with_id_def Let_def
proof (elim sum_case_InrE option_case_InrE)
  fix sd ed pk4
  assume conv: "apply_conversions
             [(''retries'', parse_retries e), (''retry_delay'', coerce_timedelta e),
              (''max_retry_delay'', coerce_timedelta e), (''resources'', coerce_resources e)]
             (AList.delete ''end_date'' (AList.delete ''start_date''
                (if truthy (dict_get pk ''wait_for_downstream'' PNone)
                 then AList.update ''depends_on_past'' (PBool True) pk else pk))) = Inr pk4"
    and mk: "make_mapped_operator e self ei strict dag tg pp
               (case tg of None \<Rightarrow> uid | Some g \<Rightarrow> child_id g uid) sd ed pk4 = Inr op"
  have "map_of pk4 ''trigger_rule'' =
        map_of (AList.delete ''end_date'' (AList.delete ''start_date''
                (if truthy (dict_get pk ''wait_for_downstream'' PNone)
                 then AList.update ''depends_on_past'' (PBool True) pk else pk))) ''trigger_rule''"
    using conv by (rule apply_conversions_other) simp
  then have "map_of pk4 ''trigger_rule'' = map_of pk ''trigger_rule''"
    by (simp add: delete_conv' update_conv')
  with mk show ?thesis
    by (simp add: make_mapped_operator_trigger_rule)
qed

lemma finish_expand_trigger_rule:
  assumes "finish_expand e self ei strict dag tg pp pk = Inr op"
  shows "mapped_trigger_rule op = map_of pk ''trigger_rule''"
proof -
  from assms obtain tid uid where
    "expand_with_id e self ei strict dag tg pp uid (AList.delete ''task_id'' pk) = Inr op"
    unfolding finish_expand_def
    by (auto split: option.splits pyval.splits sum.splits)
  then have "mapped_trigger_rule op = map_of (AList.delete ''task_id'' pk) ''trigger_rule''"
    by (rule expand_with_id_trigger_rule)
  then show ?thesis by (simp add: delete_conv')
qed

lemma build_partial_kwargs_trigger_rule:
  "map_of (rev task_kwargs) ''trigger_rule'' = Some r \<Longrightarrow>
   map_of (build_partial_kwargs e self default_args task_kwargs) ''trigger_rule'' = Some r"
  by (simp add: build_partial_kwargs_def Let_def map_of_dict_update)

lemma private_expand_trigger_rule:
  assumes "private_expand e self ei strict = Inr op"
    and "map_of (rev (kwargs self)) ''trigger_rule'' = Some r"
  shows "mapped_trigger_rule op = Some r"
  using assms(1) unfolding private_expand_def Let_def
proof (elim sum_case_InrE option_case_InrE)
  fix dag tg md
  assume "(case md of (default_args, partial_params) \<Rightarrow>
             finish_expand e self ei strict dag tg partial_params
               (build_partial_kwargs e self default_args
                 (AList.delete ''default_args'' (AList.delete ''params''
                   (AList.delete ''task_group'' (AList.delete ''dag'' (kwargs self))))))) = Inr op"
  then obtain da pp where
    fin: "finish_expand e self ei strict dag tg pp
               (build_partial_kwargs e self da
                 (AList.delete ''default_args'' (AList.delete ''params''
                   (AList.delete ''task_group'' (AList.delete ''dag'' (kwargs self)))))) = Inr op"
    by (cases md) auto
  have "map_of (rev (AList.delete ''default_args'' (AList.delete ''params''
                   (AList.delete ''task_group'' (AList.delete ''dag'' (kwargs self))))))
          ''trigger_rule'' = Some r"
    using assms(2) by (simp add: map_of_rev_delete)
  then show ?thesis
    using finish_expand_trigger_rule [OF fin] by (simp add: build_partial_kwargs_trigger_rule)
qed

lemma call_trigger_rule:
  assumes "is_teardown self" and "fst (call e self args kw) = Inr op"
  shows "operator_trigger_rule op = Some ALL_DONE_SETUP_SUCCESS"
proof -
  from assms have "init_kwargs op = AList.delete ''on_failure_fail_dagrun''
      (AList.update ''trigger_rule'' ALL_DONE_SETUP_SUCCESS (kwargs self))"
    unfolding call_def Let_def
    by (auto simp: operator_init.defs split: if_splits list.splits option.splits)
  then show ?thesis
    by (simp add: operator_trigger_rule_def delete_conv' update_conv')
qed

lemma expand_trigger_rule:
  assumes "is_teardown self" and "fst (expand e self m) = Inr op"
  shows "mapped_trigger_rule op = Some ALL_DONE_SETUP_SUCCESS"
proof -
  from assms have fresh: "''trigger_rule'' \<notin> fst ` set (kwargs self)"
    and run: "private_expand e
       (self\<lparr>kwargs := AList.update ''trigger_rule'' ALL_DONE_SETUP_SUCCESS (kwargs self)\<rparr>)
       (DictOfListsExpandInput m) False = Inr op"
    unfolding expand_def Let_def
    by (auto split: if_splits option.splits)
  have "map_of (rev (AList.update ''trigger_rule'' ALL_DONE_SETUP_SUCCESS (kwargs self)))
          ''trigger_rule'' = Some ALL_DONE_SETUP_SUCCESS"
    using fresh by (simp add: update_fresh)
  then show ?thesis
    using private_expand_trigger_rule [OF run] by simp
qed

lemma expand_teardown_error:
  assumes "is_teardown self" and "''trigger_rule'' \<in> set (map fst (kwargs self))"
  shows "\<exists>err. fst (expand e self m) = Inl err"
  using assms unfolding expand_def
  by (auto split: option.splits)

text \<open>
  What \<open>__call__\<close> and \<open>expand\<close> do for a decorator marked as teardown: the node that
  \<open>__call__\<close> returns and the mapped node that \<open>expand\<close> returns have the trigger rule "all
  done, setup success"; and when \<open>self.kwargs\<close> already holds a trigger rule, \<open>__call__\<close>
  raises the \<open>ValueError\<close> "Trigger rule not configurable for teardown tasks.", and
  \<open>expand\<close> raises an error: that same \<open>ValueError\<close> whenever its checks of the arguments,
  which come first, pass.
\<close>

theorem teardown_trigger_rule:
  "is_teardown self \<Longrightarrow>
   (\<forall>op. fst (call e self args kw) = Inr op \<longrightarrow>
          operator_trigger_rule op = Some ALL_DONE_SETUP_SUCCESS)
   \<and> (\<forall>op. fst (expand e self m) = Inr op \<longrightarrow>
          mapped_trigger_rule op = Some ALL_DONE_SETUP_SUCCESS)
   \<and> (''trigger_rule'' \<in> set (map fst (kwargs self)) \<longrightarrow>
        fst (call e self args kw) = Inl (ValueError teardown_message)
        \<and> (\<exists>err. fst (expand e self m) = Inl err)
        \<and> (\<not> (map_of (kwargs self) ''trigger_rule'' = Some ALWAYS
                 \<and> list_ex is_XComArg (map snd m)) \<longrightarrow>
           m \<noteq> [] \<longrightarrow>
           validate_task_arg_names e self ''expand'' m = None \<longrightarrow>
           prevent_duplicates (kwargs self) m ''mapping already partial'' = None \<longrightarrow>
           fst (expand e self m) = Inl (ValueError teardown_message)))"
proof (intro conjI allI impI)
  fix op
  assume "is_teardown self" and "fst (call e self args kw) = Inr op"
  then show "operator_trigger_rule op = Some ALL_DONE_SETUP_SUCCESS"
    by (rule call_trigger_rule)
next
  fix op
  assume "is_teardown self" and "fst (expand e self m) = Inr op"
  then show "mapped_trigger_rule op = Some ALL_DONE_SETUP_SUCCESS"
    by (rule expand_trigger_rule)
next
  assume "is_teardown self" and "''trigger_rule'' \<in> set (map fst (kwargs self))"
  then show "fst (call e self args kw) = Inl (ValueError teardown_message)"
    by (simp add: call_def)
next
  assume "is_teardown self" and "''trigger_rule'' \<in> set (map fst (kwargs self))"
  then show "\<exists>err. fst (expand e self m) = Inl err"
    by (rule expand_teardown_error)
next
  assume "is_teardown self" and "''trigger_rule'' \<in> set (map fst (kwargs self))"
    and "\<not> (map_of (kwargs self) ''trigger_rule'' = Some ALWAYS
            \<and> list_ex is_XComArg (map snd m))"
    and "m \<noteq> []"
    and "validate_task_arg_names e self ''expand'' m = None"
    and "prevent_duplicates (kwargs self) m ''mapping already partial'' = None"
  then show "fst (expand e self m) = Inl (ValueError teardown_message)"
    by (auto simp: expand_def)
qed

theorem teardown_trigger_rule_witness:
  "is_teardown example_teardown \<and> is_teardown example_teardown_rule
   \<and> map_sum id operator_trigger_rule
        (fst (call example_env example_teardown [] [(''a'', PInt 1)]))
       = Inr (Some (PStr ''all_done_setup_success''))
   \<and> map_sum id mapped_trigger_rule
        (fst (expand example_env example_teardown [(''a'', PList [PInt 1])]))
       = Inr (Some (PStr ''all_done_setup_success''))
   \<and> fst (call example_env example_teardown_rule [] [(''a'', PInt 1)])
       = Inl (ValueError ''Trigger rule not configurable for teardown tasks.'')
   \<and> fst (expand example_env example_teardown_rule [(''a'', PList [PInt 1])])
       = Inl (ValueError ''Trigger rule not configurable for teardown tasks.'')"
proof -
  have holds:
    "is_teardown example_teardown \<and> is_teardown example_teardown_rule
     \<and> map_sum id operator_trigger_rule
          (fst (call example_env example_teardown [] [(''a'', PInt 1)]))
         = Inr (Some (PStr ''all_done_setup_success''))
     \<and> map_sum id mapped_trigger_rule
          (fst (expand example_env example_teardown [(''a'', PList [PInt 1])]))
         = Inr (Some (PStr ''all_done_setup_success''))
     \<and> fst (call example_env example_teardown_rule [] [(''a'', PInt 1)])
         = Inl (ValueError ''Trigger rule not configurable for teardown tasks.'')
     \<and> fst (expand example_env example_teardown_rule [(''a'', PList [PInt 1])])
         = Inl (ValueError ''Trigger rule not configurable for teardown tasks.'')"
    by code_simp
  show ?thesis
   using teardown_trigger_rule
        [of example_teardown example_env "[]" "[(''a'', PInt 1)]" "[(''a'', PList [PInt 1])]"]
      teardown_trigger_rule
        [of example_teardown_rule example_env "[]" "[(''a'', PInt 1)]" "[(''a'', PList [PInt 1])]"]
    by (simp (no_asm) add: holds)
qed

text \<open>
  C5 asks the same of every way of expanding a teardown task. \<open>expand_kwargs\<close> has no such
  block: for a teardown decorator, \<open>expand_kwargs([{"a": 1}])\<close> builds a mapped node with no
  trigger rule among its partial keyword arguments, and with an explicit trigger rule it
  raises nothing and the node keeps that rule, where \<open>expand(a=[1])\<close> forces the rule "all
  done, setup success".
\<close>

theorem expand_kwargs_teardown_not_forced:
  "is_teardown example_teardown \<and> is_teardown example_teardown_rule
   \<and> map_sum id mapped_trigger_rule
        (expand_kwargs example_dag_env example_teardown
           (PList [PDict [(''a'', PInt 1)]]) True) = Inr None
   \<and> map_sum id mapped_trigger_rule
        (expand_kwargs example_dag_env example_teardown_rule
           (PList [PDict [(''a'', PInt 1)]]) True) = Inr (Some (PStr ''all_success''))
   \<and> map_sum id mapped_trigger_rule
        (fst (expand example_dag_env example_teardown [(''a'', PList [PInt 1])]))
       = Inr (Some (PStr ''all_done_setup_success''))"
  by code_simp

end
